theory Spec2Isabelle
  imports Complex_Main "HOL-Library.Sublist" "HOL-Library.Char_ord"
begin

section \<open>Values, exceptions and the host\<close>

text \<open>
  The control panel (\<^verbatim>\<open>control_panel.py\<close>) supervises one server process. Its
  functions read and change three things: the fields of \<^verbatim>\<open>ServerManager\<close>, the
  widgets of \<^verbatim>\<open>ControlPanel\<close> that the two callbacks \<^verbatim>\<open>on_log\<close> and
  \<^verbatim>\<open>on_status_change\<close> write to, and the host (PID file, process table, sockets).
  All three are fields of one record \<open>sys\<close>, passed through every function.
\<close>

text \<open>What \<^verbatim>\<open>json.load\<close> returns: Python values built from a JSON text.
  \<open>JNull\<close> is Python's \<^verbatim>\<open>None\<close>; \<open>JObject\<close> lists the items of a dict, each key
  once.\<close>

datatype json =
    JNull
  | JBool bool
  | JInt int
  | JFloat real
  | JString string
  | JArray "json list"
  | JObject "(string \<times> json) list"

text \<open>The exceptions of Python that the code catches or lets escape.\<close>

datatype py_error =
    FileNotFoundError
  | JSONDecodeError
  | KeyError
  | AttributeError
  | TypeError
  | ValueError
  | UnicodeDecodeError

text \<open>The exceptions of psutil's process methods. In psutil \<^verbatim>\<open>ZombieProcess\<close> is a
  subclass of \<^verbatim>\<open>NoSuchProcess\<close>, so a handler for \<^verbatim>\<open>NoSuchProcess\<close> catches it.\<close>

datatype psutil_error = NoSuchProcess | AccessDenied | ZombieProcess

text \<open>The five strings passed to \<^verbatim>\<open>on_status_change\<close>.\<close>

datatype status = Running | Stopped | Starting | Stopping | Error

text \<open>The PID file as \<^verbatim>\<open>open\<close> and \<^verbatim>\<open>json.load\<close> see it: absent, bytes that are
  no text in the encoding of \<^verbatim>\<open>open\<close>, a text that is not JSON, or a JSON text with
  its value.\<close>

datatype pid_file = Missing | Undecodable | NotJson | Content json

record proc_info =
  proc_is_running :: bool
  proc_name :: "psutil_error + string"

datatype conn_status = CONN_LISTEN | CONN_ESTABLISHED | CONN_NONE

record conn =
  laddr_port :: nat
  conn_state :: conn_status
  conn_pid :: "nat option"

text \<open>A line of the log area: a plain string, or an f-string kept as its text, with
  \<^verbatim>\<open>{}\<close> at each interpolation, and the interpolated values.\<close>

datatype log_line = Text string | Fmt string "json list"

text \<open>What \<^verbatim>\<open>subprocess.Popen\<close> does: return a child with its PID, or raise one of
  the three kinds of exception that \<^verbatim>\<open>start\<close> tells apart (with the text of the
  exception).\<close>

datatype popen_result =
    Spawned nat
  | PopenFileNotFound
  | PopenPermissionError string
  | PopenException string

text \<open>An exception raised while stopping: the \<^verbatim>\<open>TimeoutExpired\<close> of the library in
  use (\<^verbatim>\<open>subprocess\<close> for an owned handle, psutil for an adopted process), or any
  other \<^verbatim>\<open>Exception\<close>; both with the text that \<^verbatim>\<open>str\<close> gives.\<close>

datatype exn = TimeoutExpired string | Exc string

datatype worker = ReadStdout | WaitForReady | DoStop | DoRestart

text \<open>Calls that leave the process: where the code asks the host for something or
  does something to it, it appends one of these to \<open>calls\<close>. \<^verbatim>\<open>Wait h t\<close> is a wait
  for process \<open>h\<close> with a timeout of \<open>t\<close> seconds, \<^verbatim>\<open>WaitProcs ps t\<close> the same for
  \<^verbatim>\<open>psutil.wait_procs\<close>, \<^verbatim>\<open>Sleep ms\<close> a sleep of \<open>ms\<close> milliseconds.\<close>

datatype os_call =
    PsutilProcess nat
  | SocketConnect nat
  | HttpGet
  | NetConnections
  | OpenRead
  | OpenWrite nat
  | OsRemove
  | Popen
  | Poll nat
  | ThreadStart worker
  | Terminate nat
  | Kill nat
  | Wait nat nat
  | WaitProcs "nat list" nat
  | Sleep nat
  | OpenBrowser

text \<open>What happens in time: a call, or a line put on the queue.\<close>

datatype event = Called os_call | Queued string

record sys =
  mgr_process :: "nat option"
  mgr_pid :: "nat option"
  mgr_starting :: bool
  mgr_log_queue :: "string list"
  status_label :: "status option"
  log_area :: "log_line list"
  kill_button :: bool
  pid_file :: pid_file
  process_table :: "nat \<Rightarrow> psutil_error + proc_info"
  child_exited :: "nat \<Rightarrow> bool"
  port_listening :: "nat \<Rightarrow> bool"
  net_connections :: "conn list"
  popen_outcome :: popen_result
  calls :: "os_call list"
  events :: "event list"

text \<open>
  \<^item> \<open>mgr_process\<close> is \<^verbatim>\<open>self.process\<close>: the \<^verbatim>\<open>Popen\<close> handle, named by the child's
    PID, or \<open>None\<close>;
  \<^item> \<open>mgr_pid\<close>, \<open>mgr_starting\<close>, \<open>mgr_log_queue\<close> are \<^verbatim>\<open>self._pid\<close>,
    \<^verbatim>\<open>self._starting\<close> and \<^verbatim>\<open>self._log_queue\<close> (\<^verbatim>\<open>put\<close> appends at the end);
  \<^item> \<open>status_label\<close> is the text of the panel's status label, by the status it shows;
    \<open>None\<close> is the initial text \<^verbatim>\<open>Detecting...\<close>;
  \<^item> \<open>process_table p\<close> is what \<^verbatim>\<open>psutil.Process(p)\<close> finds, \<open>child_exited p\<close>
    whether \<^verbatim>\<open>poll()\<close> of the handle of child \<open>p\<close> returns a return code,
    \<open>port_listening n\<close> whether a TCP connect to port \<open>n\<close> on loopback succeeds,
    \<open>popen_outcome\<close> what \<^verbatim>\<open>subprocess.Popen\<close> would do: raise, or return a child
    with that PID;
  \<^item> \<open>events\<close> holds the calls and the lines put on the queue in the one order in
    which they happen; \<open>calls\<close> and \<open>mgr_log_queue\<close> hold each kind by itself.
  The file system is taken to be reliable: \<^verbatim>\<open>open\<close> for reading fails only on an
  absent file, writing the file succeeds, and \<^verbatim>\<open>os.remove\<close> fails only on an absent
  file. The functions called from the control loop and from the constructor see the
  host as it is at that moment; what a worker thread meets while it blocks or sleeps
  is an argument of the worker.
\<close>

section \<open>Constants and formatting\<close>

definition SERVER_PORT :: nat where
  "SERVER_PORT = 5000"

definition STARTUP_TIMEOUT :: nat where
  "STARTUP_TIMEOUT = 30"

definition digit_char :: "nat \<Rightarrow> char" where
  "digit_char d = ''0123456789'' ! d"

text \<open>\<^verbatim>\<open>str(n)\<close> for a natural number, as an f-string renders it.\<close>

fun str_nat :: "nat \<Rightarrow> string" where
  "str_nat n = (if n < 10 then [digit_char n] else str_nat (n div 10) @ [digit_char (n mod 10)])"

declare str_nat.simps [simp del]

definition SERVER_URL :: string where
  "SERVER_URL = ''http://localhost:'' @ str_nat SERVER_PORT"

text \<open>\<^verbatim>\<open>VENV_PYTHON\<close>, below the directory of the script.\<close>

definition VENV_PYTHON :: string where
  "VENV_PYTHON = ''.venv_tts/Scripts/python.exe''"

text \<open>The three glyphs of the log texts, in UTF-8: U+2717, U+2713 and U+26A0.\<close>

definition cross :: string where
  "cross = [CHR 0xE2, CHR 0x9C, CHR 0x97]"

definition tick_mark :: string where
  "tick_mark = [CHR 0xE2, CHR 0x9C, CHR 0x93]"

definition warning_sign :: string where
  "warning_sign = [CHR 0xE2, CHR 0x9A, CHR 0xA0]"

definition lower_char :: "char \<Rightarrow> char" where
  "lower_char c = (if CHR ''A'' \<le> c \<and> c \<le> CHR ''Z'' then char_of (of_char c + (32::nat)) else c)"

text \<open>\<^verbatim>\<open>str.lower()\<close> on the ASCII letters.\<close>

definition lower :: "string \<Rightarrow> string" where
  "lower = map lower_char"

section \<open>Callbacks and queue\<close>

definition call :: "os_call \<Rightarrow> sys \<Rightarrow> sys" where
  "call c s = s\<lparr>calls := calls s @ [c], events := events s @ [Called c]\<rparr>"

text \<open>\<^verbatim>\<open>self._log\<close> is \<^verbatim>\<open>ControlPanel._log\<close>: a line appended to the log area.\<close>

definition log :: "log_line \<Rightarrow> sys \<Rightarrow> sys" where
  "log msg s = s\<lparr>log_area := log_area s @ [msg]\<rparr>"

text \<open>\<^verbatim>\<open>self._status\<close> is \<^verbatim>\<open>ControlPanel._set_status\<close>: the label shows the status.\<close>

definition set_status :: "status \<Rightarrow> sys \<Rightarrow> sys" where
  "set_status st s = s\<lparr>status_label := Some st\<rparr>"

definition put :: "string \<Rightarrow> sys \<Rightarrow> sys" where
  "put line s = s\<lparr>mgr_log_queue := mgr_log_queue s @ [line],
                  events := events s @ [Queued line]\<rparr>"

section \<open>Utility helpers\<close>

text \<open>\<^verbatim>\<open>is_pid_alive\<close>: the process exists, is running and its lower-cased name
  contains \<^verbatim>\<open>python\<close>; every psutil exception gives \<open>False\<close>. \<open>alive_in\<close> is the
  body of the function on a process table, \<open>is_pid_alive\<close> runs it on the host's table
  and records the call.\<close>

definition alive_in :: "(nat \<Rightarrow> psutil_error + proc_info) \<Rightarrow> nat \<Rightarrow> bool" where
  "alive_in table p =
     (case table p of
        Inl e \<Rightarrow> False
      | Inr pr \<Rightarrow>
          (if proc_is_running pr
           then (case proc_name pr of
                   Inl e \<Rightarrow> False
                 | Inr n \<Rightarrow> sublist ''python'' (lower n))
           else False))"

definition is_pid_alive :: "nat \<Rightarrow> sys \<Rightarrow> bool \<times> sys" where
  "is_pid_alive p s = (alive_in (process_table s) p, call (PsutilProcess p) s)"

definition is_port_in_use :: "nat \<Rightarrow> sys \<Rightarrow> bool \<times> sys" where
  "is_port_in_use port s = (port_listening s port, call (SocketConnect port) s)"

text \<open>\<^verbatim>\<open>http_health_check\<close> on the outcome of \<^verbatim>\<open>urlopen\<close>: \<open>None\<close> for any
  exception, or the status code of the response.\<close>

definition http_health_check :: "nat option \<Rightarrow> bool" where
  "http_health_check resp = (case resp of None \<Rightarrow> False | Some code \<Rightarrow> code = 200)"

definition write_pid :: "nat \<Rightarrow> sys \<Rightarrow> sys" where
  "write_pid p s =
     (call (OpenWrite p) s)\<lparr>pid_file := Content (JObject [(''pid'', JInt (int p))])\<rparr>"

text \<open>\<^verbatim>\<open>open(PID_FILE, "r")\<close> followed by \<^verbatim>\<open>json.load\<close>.\<close>

definition json_load :: "pid_file \<Rightarrow> py_error + json" where
  "json_load f =
     (case f of
        Missing \<Rightarrow> Inl FileNotFoundError
      | Undecodable \<Rightarrow> Inl UnicodeDecodeError
      | NotJson \<Rightarrow> Inl JSONDecodeError
      | Content v \<Rightarrow> Inr v)"

text \<open>\<^verbatim>\<open>data.get(key)\<close>: only a dict has the method.\<close>

definition py_get :: "json \<Rightarrow> string \<Rightarrow> py_error + json" where
  "py_get data k =
     (case data of
        JObject kvs \<Rightarrow> (case map_of kvs k of None \<Rightarrow> Inr JNull | Some v \<Rightarrow> Inr v)
      | _ \<Rightarrow> Inl AttributeError)"

text \<open>\<^verbatim>\<open>read_pid\<close>: the handler catches \<^verbatim>\<open>FileNotFoundError\<close>,
  \<^verbatim>\<open>json.JSONDecodeError\<close> and \<^verbatim>\<open>KeyError\<close>; any other exception escapes.
  \<open>read_file\<close> is the body of the function on the state of the file, \<open>read_pid\<close>
  runs it on the host's PID file and records the call.\<close>

definition read_pid_caught :: "py_error \<Rightarrow> bool" where
  "read_pid_caught e = (e = FileNotFoundError \<or> e = JSONDecodeError \<or> e = KeyError)"

definition read_file :: "pid_file \<Rightarrow> py_error + json" where
  "read_file f =
     (let r = (case json_load f of
                 Inl e \<Rightarrow> Inl e
               | Inr data \<Rightarrow> py_get data ''pid'')
      in (case r of
            Inl e \<Rightarrow> if read_pid_caught e then Inr JNull else Inl e
          | Inr v \<Rightarrow> Inr v))"

definition read_pid :: "sys \<Rightarrow> (py_error + json) \<times> sys" where
  "read_pid s = (read_file (pid_file s), call OpenRead s)"

definition remove_pid :: "sys \<Rightarrow> sys" where
  "remove_pid s = (call OsRemove s)\<lparr>pid_file := Missing\<rparr>"

text \<open>\<^verbatim>\<open>find_port_owner\<close>: the PID of the first listening connection on the port.\<close>

fun first_listener :: "conn list \<Rightarrow> nat \<Rightarrow> nat option" where
  "first_listener [] port = None"
| "first_listener (c # cs) port =
     (if laddr_port c = port \<and> conn_state c = CONN_LISTEN then conn_pid c
      else first_listener cs port)"

definition find_port_owner :: "nat \<Rightarrow> sys \<Rightarrow> nat option \<times> sys" where
  "find_port_owner port s = (first_listener (net_connections s) port, call NetConnections s)"

section \<open>Server manager: detection, liveness, passive health check\<close>

text \<open>Python's truth value of a value read from the PID file.\<close>

definition truthy :: "json \<Rightarrow> bool" where
  "truthy v =
     (case v of
        JNull \<Rightarrow> False
      | JBool b \<Rightarrow> b
      | JInt i \<Rightarrow> i \<noteq> 0
      | JFloat r \<Rightarrow> r \<noteq> 0
      | JString t \<Rightarrow> t \<noteq> []
      | JArray xs \<Rightarrow> xs \<noteq> []
      | JObject kvs \<Rightarrow> kvs \<noteq> [])"

text \<open>\<^verbatim>\<open>is_pid_alive(pid)\<close> on a value read from the PID file, which need not be a
  process id. For a negative integer \<^verbatim>\<open>psutil.Process\<close> raises \<^verbatim>\<open>ValueError\<close>, for a
  value that is no integer \<^verbatim>\<open>TypeError\<close>; \<^verbatim>\<open>is_pid_alive\<close> catches neither. For
  \<^verbatim>\<open>True\<close> psutil finds no process and raises \<^verbatim>\<open>NoSuchProcess\<close>, which
  \<^verbatim>\<open>is_pid_alive\<close> catches. The code applies it to true values only. \<open>tracked_of\<close> is
  the PID that \<^verbatim>\<open>self._pid = pid\<close> stores.\<close>

definition value_alive :: "json \<Rightarrow> sys \<Rightarrow> (py_error + bool) \<times> sys" where
  "value_alive v s =
     (case v of
        JInt i \<Rightarrow>
          if i < 0 then (Inl ValueError, s)
          else (let (alive, s1) = is_pid_alive (nat i) s in (Inr alive, s1))
      | JBool b \<Rightarrow> (Inr False, s)
      | _ \<Rightarrow> (Inl TypeError, s))"

definition tracked_of :: "json \<Rightarrow> nat option" where
  "tracked_of v = (case v of JInt i \<Rightarrow> Some (nat i) | _ \<Rightarrow> None)"

definition opt_json :: "nat option \<Rightarrow> json" where
  "opt_json v = (case v of None \<Rightarrow> JNull | Some n \<Rightarrow> JInt (int n))"

text \<open>Lines 150 to 162 of \<^verbatim>\<open>_detect_existing\<close>: stale PID cleanup, the check for a
  foreign process on the port, and the status.\<close>

definition detect_cleanup :: "json \<Rightarrow> sys \<Rightarrow> sys" where
  "detect_cleanup pid s =
     (let s1 = (if pid \<noteq> JNull
                then remove_pid (log (Fmt ''Cleaning up stale PID file (PID {}).'' [pid]) s)
                else s);
          (used, s2) = is_port_in_use SERVER_PORT s1;
          s3 = (if used
                then (let (owner, s') = find_port_owner SERVER_PORT s2
                      in put ''__PORT_BLOCKED__''
                           (log (Fmt (warning_sign @ '' Port {} is in use by another process (PID {}). Start will fail until that process is stopped.'')
                                   [JInt (int SERVER_PORT), opt_json owner]) s'))
                else s2)
      in set_status Stopped s3)"

text \<open>\<^verbatim>\<open>ServerManager._detect_existing\<close>. An exception that escapes it escapes the
  constructor.\<close>

definition detect_existing :: "sys \<Rightarrow> py_error + sys" where
  "detect_existing s =
     (case read_pid s of
        (Inl e, s1) \<Rightarrow> Inl e
      | (Inr pid, s1) \<Rightarrow>
          if truthy pid then
            (case value_alive pid s1 of
               (Inl e, s2) \<Rightarrow> Inl e
             | (Inr alive, s2) \<Rightarrow>
                 if alive then
                   (let (used, s3) = is_port_in_use SERVER_PORT s2 in
                    if used
                    then Inr (set_status Running
                                (log (Fmt ''Detected existing server (PID {}) on port {}.''
                                        [pid, JInt (int SERVER_PORT)])
                                   (s3\<lparr>mgr_pid := tracked_of pid\<rparr>)))
                    else Inr (detect_cleanup pid
                                (log (Fmt ''PID {} alive but port {} not open. Treating as stale.''
                                        [pid, JInt (int SERVER_PORT)]) s3)))
                 else Inr (detect_cleanup pid s2))
          else Inr (detect_cleanup pid s1))"

text \<open>The idiom \<^verbatim>\<open>pid and is_pid_alive(pid)\<close> on a tracked PID: \<^verbatim>\<open>None\<close> and
  \<^verbatim>\<open>0\<close> are false and the probe is not called.\<close>

definition pid_and_alive :: "nat option \<Rightarrow> sys \<Rightarrow> bool \<times> sys" where
  "pid_and_alive v s =
     (case v of
        None \<Rightarrow> (False, s)
      | Some p \<Rightarrow> if p = 0 then (False, s) else is_pid_alive p s)"

text \<open>The property \<^verbatim>\<open>ServerManager.is_running\<close>.\<close>

definition is_running :: "sys \<Rightarrow> bool \<times> sys" where
  "is_running s =
     (let (alive, s1) = pid_and_alive (mgr_pid s) s in
      if alive then (True, s1)
      else (case mgr_process s1 of
              None \<Rightarrow> (False, s1)
            | Some h \<Rightarrow> (\<not> child_exited s1 h, call (Poll h) s1)))"

text \<open>\<^verbatim>\<open>ServerManager.health_check\<close>.\<close>

definition health_check :: "sys \<Rightarrow> status \<times> sys" where
  "health_check s =
     (if mgr_starting s then (Starting, s)
      else
        (let (alive, s1) = pid_and_alive (mgr_pid s) s in
         if alive then (Running, s1)
         else if mgr_pid s1 \<noteq> None \<and> mgr_pid s1 \<noteq> Some 0
         then (Stopped, (remove_pid s1)\<lparr>mgr_pid := None, mgr_process := None\<rparr>)
         else (case mgr_process s1 of
                 None \<Rightarrow> (Stopped, s1)
               | Some h \<Rightarrow>
                   (let s2 = call (Poll h) s1 in
                    if child_exited s2 h then (Stopped, s2\<lparr>mgr_process := None\<rparr>)
                    else (Stopped, s2)))))"

text \<open>\<^verbatim>\<open>ServerManager.refresh_state\<close>, the Refresh command. \<open>refresh_tracked\<close> is its
  first block, the check of the managed PID; \<open>refresh_port\<close> its last one, the report on
  the port; between them the record is read and tried for adoption as in
  \<^verbatim>\<open>_detect_existing\<close>. No branch after the first block removes the PID file.\<close>

definition refresh_tracked :: "sys \<Rightarrow> sys" where
  "refresh_tracked s =
     (case mgr_pid s of
        None \<Rightarrow> s
      | Some p \<Rightarrow>
          if p = 0 then s
          else (let (alive, s1) = is_pid_alive p s in
                if \<not> alive
                then (remove_pid (log (Fmt ''Managed PID {} is gone. Cleaning up.'' [JInt (int p)]) s1))
                       \<lparr>mgr_pid := None, mgr_process := None\<rparr>
                else s1))"

definition refresh_port :: "sys \<Rightarrow> sys" where
  "refresh_port s =
     (let (used, s1) = is_port_in_use SERVER_PORT s in
      if used
      then (let (owner, s2) = find_port_owner SERVER_PORT s1 in
            set_status Stopped
              (put ''__PORT_BLOCKED__''
                 (log (Fmt (warning_sign @ '' Port {} blocked by foreign process (PID {}).'')
                         [JInt (int SERVER_PORT), opt_json owner]) s2)))
      else set_status Stopped
             (put ''__PORT_FREE__''
                (log (Text (tick_mark @ '' Port is free. Server is stopped.'')) s1)))"

definition refresh_state :: "sys \<Rightarrow> py_error + sys" where
  "refresh_state s =
     (let s0 = refresh_tracked (log (Text ''Refreshing state...'') s) in
      case read_pid s0 of
        (Inl e, s1) \<Rightarrow> Inl e
      | (Inr pid, s1) \<Rightarrow>
          if truthy pid then
            (case value_alive pid s1 of
               (Inl e, s2) \<Rightarrow> Inl e
             | (Inr alive, s2) \<Rightarrow>
                 if alive then
                   (let (used, s3) = is_port_in_use SERVER_PORT s2 in
                    if used
                    then Inr (put ''__PORT_FREE__''
                                (set_status Running
                                   (log (Fmt (tick_mark @ '' Server running (PID {}) on port {}.'')
                                           [pid, JInt (int SERVER_PORT)])
                                      (s3\<lparr>mgr_pid := tracked_of pid\<rparr>))))
                    else Inr (refresh_port s3))
                 else Inr (refresh_port s2))
          else Inr (refresh_port s1))"

text \<open>Calls that go over the network: the TCP connect of \<^verbatim>\<open>is_port_in_use\<close> and the
  HTTP request of \<^verbatim>\<open>http_health_check\<close>.\<close>

fun is_network_call :: "os_call \<Rightarrow> bool" where
  "is_network_call (SocketConnect n) = True"
| "is_network_call HttpGet = True"
| "is_network_call c = False"

section \<open>Server manager: start and the readiness poller\<close>

text \<open>\<^verbatim>\<open>ServerManager.start\<close>. The two threads it starts are recorded as calls; the
  readiness poller is \<open>wait_for_ready\<close> below. (The \<^verbatim>\<open>STARTUPINFO\<close> set up on
  Windows only hides the console window.)\<close>

definition start :: "sys \<Rightarrow> sys" where
  "start s =
     (let (running, s1) = is_running s in
      if running then log (Text ''Server is already running.'') s1
      else
        (let (used, s2) = is_port_in_use SERVER_PORT s1 in
         if used then
           (let (owner, s3) = find_port_owner SERVER_PORT s2 in
            set_status Error
              (put ''__PORT_BLOCKED__''
                 (log (Fmt (cross @ '' Port {} is already in use (PID {}). Cannot start.'')
                         [JInt (int SERVER_PORT), opt_json owner]) s3)))
         else
           (let s3 = log (Text ''Starting Novellica server...'')
                       (set_status Starting (s2\<lparr>mgr_starting := True\<rparr>));
                s4 = call Popen s3
            in (case popen_outcome s4 of
                  Spawned child \<Rightarrow>
                    call (ThreadStart WaitForReady)
                      (call (ThreadStart ReadStdout)
                         (log (Fmt ''Process spawned (PID {}). Waiting for HTTP 200...''
                                 [JInt (int child)])
                            (write_pid child
                               (s4\<lparr>mgr_process := Some child, mgr_pid := Some child\<rparr>))))
                | PopenFileNotFound \<Rightarrow>
                    (set_status Error
                       (log (Fmt (cross @ '' Python executable not found: {}'')
                               [JString VENV_PYTHON]) s4))\<lparr>mgr_starting := False\<rparr>
                | PopenPermissionError m \<Rightarrow>
                    (set_status Error
                       (log (Fmt (cross @ '' Permission error: {}'') [JString m]) s4))
                      \<lparr>mgr_starting := False\<rparr>
                | PopenException m \<Rightarrow>
                    (set_status Error
                       (log (Fmt (cross @ '' Failed to start: {}'') [JString m]) s4))
                      \<lparr>mgr_starting := False\<rparr>))))"

text \<open>\<^verbatim>\<open>ServerManager._wait_for_ready\<close>. The poller runs for up to 30 seconds while
  the host changes, so what it observes is an argument: one pair for each iteration
  of the loop entered before the deadline, saying whether \<^verbatim>\<open>poll()\<close> reports the
  child's exit then, and the outcome of the HTTP probe. The empty list is the deadline
  reached.\<close>

fun wait_for_ready :: "(bool \<times> nat option) list \<Rightarrow> sys \<Rightarrow> sys" where
  "wait_for_ready [] s =
     put ''__TIMEOUT__''
       ((put (cross @ '' Server did not respond within '' @ str_nat STARTUP_TIMEOUT
                @ ''s. Check logs.'') s)\<lparr>mgr_starting := False\<rparr>)"
| "wait_for_ready ((exited, resp) # rest) s =
     (case mgr_process s of
        Some h \<Rightarrow>
          (if exited
           then (put (cross @ '' Server process exited before becoming ready.'')
                   (call (Poll h) s))\<lparr>mgr_starting := False\<rparr>
           else if http_health_check resp
           then put ''__READY__''
                  ((put (tick_mark @ '' Server ready at '' @ SERVER_URL)
                      (call HttpGet (call (Poll h) s)))\<lparr>mgr_starting := False\<rparr>)
           else wait_for_ready rest (call (Sleep 500) (call HttpGet (call (Poll h) s))))
      | None \<Rightarrow>
          (if http_health_check resp
           then put ''__READY__''
                  ((put (tick_mark @ '' Server ready at '' @ SERVER_URL)
                      (call HttpGet s))\<lparr>mgr_starting := False\<rparr>)
           else wait_for_ready rest (call (Sleep 500) (call HttpGet s))))"

section \<open>Server manager: stop\<close>

text \<open>\<^verbatim>\<open>ServerManager.stop\<close> up to the start of its worker thread. The worker gets
  the values of \<^verbatim>\<open>self._pid\<close> and \<^verbatim>\<open>self.process\<close> at this moment.\<close>

definition stop :: "sys \<Rightarrow> sys" where
  "stop s =
     (let (running, s1) = is_running s in
      if \<not> running then log (Text ''Server is not running.'') s1
      else call (ThreadStart DoStop)
             (log (Text ''Stopping server...'') (set_status Stopping s1)))"

text \<open>What the stop worker meets after its first look at the host: the outcome
  (\<open>None\<close>: it returned) of \<^verbatim>\<open>terminate\<close>, of the wait of 5 seconds, of \<^verbatim>\<open>kill\<close>, of
  the wait of 3 seconds and of the two \<^verbatim>\<open>psutil.Process(pid)\<close> of the adopted branch
  (in its \<^verbatim>\<open>try\<close> and in its timeout handler), and what \<^verbatim>\<open>is_pid_alive(pid)\<close>
  answers after the wait has timed out.\<close>

record stop_env =
  terminate_result :: "exn option"
  wait5_result :: "exn option"
  alive_after_wait :: bool
  kill_result :: "exn option"
  wait3_result :: "exn option"
  lookup_result :: "exn option"
  relookup_result :: "exn option"

definition exn_text :: "exn \<Rightarrow> string" where
  "exn_text e = (case e of TimeoutExpired m \<Rightarrow> m | Exc m \<Rightarrow> m)"

text \<open>The branch for an owned handle \<open>h\<close> whose \<^verbatim>\<open>poll()\<close> is \<^verbatim>\<open>None\<close>. The result
  says whether an exception leaves the branch.\<close>

definition stop_owned :: "stop_env \<Rightarrow> nat option \<Rightarrow> nat \<Rightarrow> sys \<Rightarrow> exn option \<times> sys" where
  "stop_owned env pid h s =
     (let s1 = call (Terminate h) s in
      case terminate_result env of
        Some e \<Rightarrow> (Some e, s1)
      | None \<Rightarrow>
          (let s2 = call (Wait h 5) s1 in
           case wait5_result env of
             None \<Rightarrow> (None, put ''Server stopped gracefully.'' s2)
           | Some (Exc m) \<Rightarrow> (Some (Exc m), s2)
           | Some (TimeoutExpired m) \<Rightarrow>
               (let (alive, s3) =
                      (case pid of
                         None \<Rightarrow> (False, s2)
                       | Some p \<Rightarrow> if p = 0 then (False, s2)
                                   else (alive_after_wait env, call (PsutilProcess p) s2))
                in if alive then
                     (let s4 = call (Kill h)
                                 (put ''Graceful stop timed out. Force killing...'' s3)
                      in case kill_result env of
                           Some e \<Rightarrow> (Some e, s4)
                         | None \<Rightarrow> (wait3_result env, call (Wait h 3) s4))
                   else (None, put ''Process already exited.'' s3))))"

text \<open>The branch for an adopted process \<open>p\<close> (no handle, or a handle whose child has
  exited): \<open>adopted_try\<close> is the body of the inner \<^verbatim>\<open>try\<close>, \<open>adopted_on_timeout\<close> the
  handler for the timeout, from which an exception leaves the branch; the second
  handler catches every other exception of the \<^verbatim>\<open>try\<close>.\<close>

definition adopted_try :: "stop_env \<Rightarrow> nat \<Rightarrow> sys \<Rightarrow> exn option \<times> sys" where
  "adopted_try env p s =
     (let s1 = call (PsutilProcess p) s in
      case lookup_result env of
        Some e \<Rightarrow> (Some e, s1)
      | None \<Rightarrow>
          (let s2 = call (Terminate p) s1 in
           case terminate_result env of
             Some e \<Rightarrow> (Some e, s2)
           | None \<Rightarrow>
               (let s3 = call (Wait p 5) s2 in
                case wait5_result env of
                  Some e \<Rightarrow> (Some e, s3)
                | None \<Rightarrow> (None, put ''Adopted process stopped.'' s3))))"

definition adopted_on_timeout :: "stop_env \<Rightarrow> nat \<Rightarrow> sys \<Rightarrow> exn option \<times> sys" where
  "adopted_on_timeout env p s =
     (let s1 = call (PsutilProcess p) s in
      if alive_after_wait env then
        (let s2 = call (PsutilProcess p) s1 in
         case relookup_result env of
           Some e \<Rightarrow> (Some e, s2)
         | None \<Rightarrow>
             (let s3 = call (Kill p) s2 in
              case kill_result env of
                Some e \<Rightarrow> (Some e, s3)
              | None \<Rightarrow> (None, put ''Adopted process force-killed.'' s3)))
      else (None, s1))"

definition stop_adopted :: "stop_env \<Rightarrow> nat \<Rightarrow> sys \<Rightarrow> exn option \<times> sys" where
  "stop_adopted env p s =
     (let (raised, s1) =
            adopted_try env p (put (''Terminating adopted process PID '' @ str_nat p @ ''...'') s)
      in case raised of
           None \<Rightarrow> (None, s1)
         | Some (TimeoutExpired m) \<Rightarrow> adopted_on_timeout env p s1
         | Some (Exc m) \<Rightarrow> (None, put (''Error stopping adopted process: '' @ m) s1))"

text \<open>The worker \<^verbatim>\<open>_do_stop\<close> with the captured \<^verbatim>\<open>pid\<close> and \<^verbatim>\<open>proc\<close>.
  \<open>stop_untracked\<close> is the \<^verbatim>\<open>elif\<close> (an adopted process when the PID is alive, nothing
  otherwise), \<open>do_stop_body\<close> the body of the outer \<^verbatim>\<open>try\<close>, and \<open>do_stop\<close> adds the
  handler for every \<^verbatim>\<open>Exception\<close> and the \<^verbatim>\<open>finally\<close> block.\<close>

definition stop_untracked :: "stop_env \<Rightarrow> nat option \<Rightarrow> sys \<Rightarrow> exn option \<times> sys" where
  "stop_untracked env pid s =
     (let (alive, s1) = pid_and_alive pid s in
      if alive then (case pid of None \<Rightarrow> (None, s1) | Some p \<Rightarrow> stop_adopted env p s1)
      else (None, s1))"

definition do_stop_body :: "stop_env \<Rightarrow> nat option \<Rightarrow> nat option \<Rightarrow> sys \<Rightarrow> exn option \<times> sys" where
  "do_stop_body env pid proc s =
     (case proc of
        None \<Rightarrow> stop_untracked env pid s
      | Some h \<Rightarrow>
          (let s1 = call (Poll h) s in
           if \<not> child_exited s h then stop_owned env pid h s1
           else stop_untracked env pid s1))"

definition do_stop :: "stop_env \<Rightarrow> nat option \<Rightarrow> nat option \<Rightarrow> sys \<Rightarrow> sys" where
  "do_stop env pid proc s =
     (let (raised, s1) = do_stop_body env pid proc s;
          s2 = (case raised of
                  None \<Rightarrow> s1
                | Some e \<Rightarrow> put (''Error during stop: '' @ exn_text e) s1)
      in put ''__STOPPED__'' ((remove_pid s2)\<lparr>mgr_pid := None, mgr_process := None\<rparr>))"

section \<open>Server manager: restart\<close>

text \<open>The loop of \<^verbatim>\<open>_do_restart\<close>: at most \<open>n\<close> more iterations, each asking
  \<^verbatim>\<open>self.is_running\<close> and sleeping half a second while it is true. The stop worker
  and the host change the answer meanwhile, so \<open>running i\<close> is the answer at
  iteration \<open>i\<close>.\<close>

fun poll_stopped :: "nat \<Rightarrow> nat \<Rightarrow> (nat \<Rightarrow> bool) \<Rightarrow> sys \<Rightarrow> sys" where
  "poll_stopped 0 i running s = s"
| "poll_stopped (Suc n) i running s =
     (if \<not> running i then s
      else poll_stopped n (Suc i) running (call (Sleep 500) s))"

text \<open>\<^verbatim>\<open>ServerManager.restart\<close> logs and starts its worker; the worker is
  \<^verbatim>\<open>_do_restart\<close>.\<close>

definition restart :: "sys \<Rightarrow> sys" where
  "restart s = call (ThreadStart DoRestart) (log (Text ''Restarting server...'') s)"

definition do_restart :: "(nat \<Rightarrow> bool) \<Rightarrow> sys \<Rightarrow> sys" where
  "do_restart running s =
     (let (r, s1) = is_running s;
          s2 = (if r then poll_stopped 20 0 running (stop s1) else s1)
      in put ''__DO_START__'' (call (Sleep 500) s2))"

section \<open>Server manager: killing a process tree\<close>







section \<open>Control panel: the tick\<close>

text \<open>\<^verbatim>\<open>_show_kill_button\<close> and \<^verbatim>\<open>_hide_kill_button\<close>: the button is packed when the
  port has an owner with a true PID.\<close>

definition show_kill_button :: "sys \<Rightarrow> sys" where
  "show_kill_button s =
     (let (owner, s1) = find_port_owner SERVER_PORT s in
      case owner of
        None \<Rightarrow> s1\<lparr>kill_button := False\<rparr>
      | Some p \<Rightarrow> if p = 0 then s1\<lparr>kill_button := False\<rparr>
                  else (call (PsutilProcess p) s1)\<lparr>kill_button := True\<rparr>)"

definition hide_kill_button :: "sys \<Rightarrow> sys" where
  "hide_kill_button s = s\<lparr>kill_button := False\<rparr>"

text \<open>\<^verbatim>\<open>ServerManager.drain_logs\<close>: all queued lines, in order.\<close>

definition drain_logs :: "sys \<Rightarrow> string list \<times> sys" where
  "drain_logs s = (mgr_log_queue s, s\<lparr>mgr_log_queue := []\<rparr>)"

text \<open>The body of the loop of \<^verbatim>\<open>_tick\<close> for one drained line.\<close>

definition process_line :: "string \<Rightarrow> sys \<Rightarrow> sys" where
  "process_line line s =
     (if line = ''__READY__'' then call OpenBrowser (hide_kill_button (set_status Running s))
      else if line = ''__TIMEOUT__'' then set_status Error s
      else if line = ''__STOPPED__'' then set_status Stopped s
      else if line = ''__DO_START__'' then start s
      else if line = ''__PORT_BLOCKED__'' then show_kill_button s
      else if line = ''__PORT_FREE__''
      then set_status Stopped
             (log (Text (tick_mark @ '' Port is now free. You can start the server.''))
                (hide_kill_button s))
      else log (Text line) s)"

text \<open>The second half of \<^verbatim>\<open>_tick\<close>: the passive health check, and the label updated
  when it differs and shows neither \<^verbatim>\<open>Starting...\<close> nor \<^verbatim>\<open>Stopping...\<close>.\<close>

definition reconcile :: "sys \<Rightarrow> sys" where
  "reconcile s =
     (let (st, s1) = health_check s in
      if status_label s1 \<noteq> Some st
         \<and> status_label s1 \<noteq> Some Starting \<and> status_label s1 \<noteq> Some Stopping
      then set_status st s1
      else s1)"

text \<open>\<^verbatim>\<open>ControlPanel._tick\<close>, one run.\<close>

definition tick :: "sys \<Rightarrow> sys" where
  "tick s = (let (lines, s1) = drain_logs s in reconcile (fold process_line lines s1))"

section \<open>Reading the record of calls\<close>

text \<open>The calls made between a state and a later one.\<close>

definition new_calls :: "sys \<Rightarrow> sys \<Rightarrow> os_call list" where
  "new_calls s s' = drop (length (calls s)) (calls s')"

text \<open>The events between a state and a later one, and the calls that
  \<^verbatim>\<open>self.is_running\<close> makes in a state.\<close>

definition new_events :: "sys \<Rightarrow> sys \<Rightarrow> event list" where
  "new_events s s' = drop (length (events s)) (events s')"

text \<open>How often the loop of \<^verbatim>\<open>_do_restart\<close> sleeps: once for each of its 20 looks at
  \<^verbatim>\<open>self.is_running\<close> that come before the first false answer.\<close>

definition waits :: "(nat \<Rightarrow> bool) \<Rightarrow> nat" where
  "waits running = length (takeWhile running [0..<20])"

definition probes :: "sys \<Rightarrow> os_call list" where
  "probes s = new_calls s (snd (is_running s))"

fun sleep_ms :: "os_call \<Rightarrow> nat" where
  "sleep_ms (Sleep ms) = ms"
| "sleep_ms c = 0"

definition total_sleep :: "os_call list \<Rightarrow> nat" where
  "total_sleep cs = sum_list (map sleep_ms cs)"



text \<open>Lists of calls with no spawn, no readiness poller, no write of the PID file and no
  sleep; and two states that agree on the manager's fields and the PID file.\<close>

definition quiet :: "os_call list \<Rightarrow> bool" where
  "quiet cs = (Popen \<notin> set cs \<and> ThreadStart WaitForReady \<notin> set cs
                \<and> (\<forall>p. OpenWrite p \<notin> set cs) \<and> total_sleep cs = 0)"

definition same_manager :: "sys \<Rightarrow> sys \<Rightarrow> bool" where
  "same_manager s s' =
     (mgr_log_queue s' = mgr_log_queue s \<and> pid_file s' = pid_file s
      \<and> mgr_process s' = mgr_process s \<and> mgr_pid s' = mgr_pid s
      \<and> mgr_starting s' = mgr_starting s)"

section \<open>Concrete hosts\<close>

text \<open>A host with no PID file, no process, no listener and a working interpreter,
  and a manager as \<^verbatim>\<open>__init__\<close> leaves its fields before detection.\<close>

definition sys0 :: sys where
  "sys0 = \<lparr>mgr_process = None, mgr_pid = None, mgr_starting = False, mgr_log_queue = [],
           status_label = None, log_area = [], kill_button = False,
           pid_file = Missing, process_table = (\<lambda>p. Inl NoSuchProcess),
           child_exited = (\<lambda>p. True), port_listening = (\<lambda>n. False),
           net_connections = [], popen_outcome = Spawned 4242, calls = [], events = []\<rparr>"

definition python_proc :: proc_info where
  "python_proc = \<lparr>proc_is_running = True, proc_name = Inr ''python.exe''\<rparr>"

text \<open>The PID file as \<^verbatim>\<open>write_pid\<close> leaves it; a process table with one Python process;
  a foreign process 99 listening on the server's port.\<close>

definition pid_record :: "nat \<Rightarrow> pid_file" where
  "pid_record p = Content (JObject [(''pid'', JInt (int p))])"

definition python_table :: "nat \<Rightarrow> nat \<Rightarrow> psutil_error + proc_info" where
  "python_table q = (\<lambda>p. if p = q then Inr python_proc else Inl NoSuchProcess)"

definition foreign_listener :: "conn list" where
  "foreign_listener = [\<lparr>laddr_port = 5000, conn_state = CONN_LISTEN, conn_pid = Some 99\<rparr>]"

definition blocked_host :: sys where
  "blocked_host = sys0\<lparr>port_listening := (\<lambda>n. n = 5000), net_connections := foreign_listener\<rparr>"

text \<open>A manager that tracks the live Python process 7 while process 99 holds the port.\<close>

definition running_elsewhere :: sys where
  "running_elsewhere = blocked_host\<lparr>mgr_pid := Some 7, process_table := python_table 7,
      status_label := Some Running\<rparr>"

text \<open>A manager that shows \<^verbatim>\<open>Running\<close> for process 4242, which the host no longer has.\<close>

definition died_outside :: sys where
  "died_outside = sys0\<lparr>mgr_pid := Some 4242, status_label := Some Running,
      pid_file := pid_record 4242\<rparr>"

text \<open>A stopped manager that tracks no PID, beside a record for process 4242, which the
  host does not have.\<close>

definition stale_record :: sys where
  "stale_record = sys0\<lparr>status_label := Some Stopped, pid_file := pid_record 4242\<rparr>"


section \<open>Basic facts\<close>

lemmas effect_defs = call_def log_def put_def set_status_def remove_pid_def write_pid_def

lemma alive_python [simp]: "alive_in (python_table q) p = (p = q)"
  by (simp add: alive_in_def python_table_def python_proc_def lower_def lower_char_def sublist_code)

lemma alive_nobody [simp]: "alive_in (\<lambda>p. Inl NoSuchProcess) p = False"
  by (simp add: alive_in_def)

lemma new_calls_append [simp]: "calls s' = calls s @ cs \<Longrightarrow> new_calls s s' = cs"
  by (simp add: new_calls_def)

lemma total_sleep_one: "total_sleep [Sleep ms] = ms"
  by (simp add: total_sleep_def)

lemma total_sleep_Nil [simp]: "total_sleep [] = 0"
  by (simp add: total_sleep_def)

lemma total_sleep_Cons: "total_sleep (c # cs) = sleep_ms c + total_sleep cs"
  by (simp add: total_sleep_def)

lemma total_sleep_append: "total_sleep (xs @ ys) = total_sleep xs + total_sleep ys"
  by (simp add: total_sleep_def)

lemma total_sleep_replicate: "total_sleep (replicate k (Sleep ms)) = k * ms"
  by (induction k) (simp_all add: total_sleep_def)

lemma new_events_append [simp]: "events s' = events s @ es \<Longrightarrow> new_events s s' = es"
  by (simp add: new_events_def)

text \<open>\<^verbatim>\<open>is_running\<close> changes nothing but the record of calls and events, and asking
  again gives the same answer with the same calls.\<close>

lemma is_running_eq:
  "is_running s = (fst (is_running s),
                   s\<lparr>calls := calls s @ probes s, events := events s @ map Called (probes s)\<rparr>)"
  by (simp add: probes_def new_calls_def is_running_def pid_and_alive_def is_pid_alive_def
        call_def Let_def split: option.splits)

lemma is_running_snd:
  "snd (is_running s)
     = s\<lparr>calls := calls s @ probes s, events := events s @ map Called (probes s)\<rparr>"
  by (subst is_running_eq) simp

lemma is_running_calls_update:
  "fst (is_running (s\<lparr>calls := cs, events := es\<rparr>)) = fst (is_running s)"
  by (simp add: is_running_def pid_and_alive_def is_pid_alive_def call_def Let_def
        split: option.splits)

lemma probes_calls_update: "probes (s\<lparr>calls := cs, events := es\<rparr>) = probes s"
  by (simp add: probes_def new_calls_def is_running_def pid_and_alive_def is_pid_alive_def
        call_def Let_def split: option.splits)

lemma is_running_again: "fst (is_running (snd (is_running s))) = fst (is_running s)"
  by (subst is_running_snd) (rule is_running_calls_update)

lemma probes_again: "probes (snd (is_running s)) = probes s"
  by (subst is_running_snd) (rule probes_calls_update)

lemma probes_quiet: "quiet (probes s)"
  by (simp add: probes_def new_calls_def is_running_def pid_and_alive_def is_pid_alive_def
        call_def Let_def quiet_def total_sleep_def split: option.splits)

lemma is_running_quiet: "\<exists>cs. calls (snd (is_running s)) = calls s @ cs \<and> quiet cs"
  using probes_quiet [of s] by (subst is_running_snd) simp

lemma is_running_same: "same_manager s (snd (is_running s))"
  by (subst is_running_snd) (simp add: same_manager_def)

lemma is_running_label: "status_label (snd (is_running s)) = status_label s"
  by (subst is_running_snd) simp

lemma is_running_log: "log_area (snd (is_running s)) = log_area s"
  by (subst is_running_snd) simp

lemma is_running_port: "port_listening (snd (is_running s)) = port_listening s"
  by (subst is_running_snd) simp

text \<open>The host \<open>sys0\<close> has no process 4242, so \<open>start sys0\<close> is a start whose child is
  gone at once: the state right after \<^verbatim>\<open>start\<close> returns, before the poller looks.\<close>

lemma start_sys0:
  "start sys0 = sys0\<lparr>mgr_process := Some 4242, mgr_pid := Some 4242, mgr_starting := True,
       status_label := Some Starting,
       log_area := [Text ''Starting Novellica server...'',
                    Fmt ''Process spawned (PID {}). Waiting for HTTP 200...'' [JInt 4242]],
       pid_file := pid_record 4242,
       calls := [SocketConnect SERVER_PORT, Popen, OpenWrite 4242, ThreadStart ReadStdout,
                 ThreadStart WaitForReady],
       events := [Called (SocketConnect SERVER_PORT), Called Popen, Called (OpenWrite 4242),
                  Called (ThreadStart ReadStdout), Called (ThreadStart WaitForReady)]\<rparr>"
  by (simp add: start_def is_running_def pid_and_alive_def is_port_in_use_def sys0_def effect_defs
        pid_record_def)

section \<open>State Store: reading the PID file\<close>

lemma read_pid_missing:
  "pid_file s = Missing \<Longrightarrow> fst (read_pid s) = Inr JNull"
  by (simp add: read_pid_def read_file_def json_load_def read_pid_caught_def)

lemma read_pid_not_json:
  "pid_file s = NotJson \<Longrightarrow> fst (read_pid s) = Inr JNull"
  by (simp add: read_pid_def read_file_def json_load_def read_pid_caught_def)

lemma read_pid_undecodable:
  "pid_file s = Undecodable \<Longrightarrow> fst (read_pid s) = Inl UnicodeDecodeError"
  by (simp add: read_pid_def read_file_def json_load_def read_pid_caught_def)

lemma read_pid_object:
  "pid_file s = Content (JObject kvs) \<Longrightarrow>
   fst (read_pid s) = Inr (case map_of kvs ''pid'' of None \<Rightarrow> JNull | Some v \<Rightarrow> v)"
  by (simp add: read_pid_def read_file_def json_load_def py_get_def split: option.splits)

lemma read_pid_string_pid:
  "fst (read_pid (sys0\<lparr>pid_file := Content (JObject [(''pid'', JString ''abc'')])\<rparr>))
     = Inr (JString ''abc'')"
  by (simp add: read_pid_def read_file_def json_load_def py_get_def)

text \<open>
  C6. The claim: for a missing file or any malformed content (no JSON, or JSON
  without a usable integer \<^verbatim>\<open>pid\<close>), \<^verbatim>\<open>read_pid\<close> returns \<^verbatim>\<open>None\<close> and does not raise.
  The code does so for the missing file and for a text that is not JSON
  (\<open>read_pid_missing\<close>, \<open>read_pid_not_json\<close>), and for an object without the key
  (\<open>read_pid_object\<close>). For a JSON text whose value is not an object, here the empty
  array \<^verbatim>\<open>[]\<close>, \<^verbatim>\<open>data.get\<close> raises \<^verbatim>\<open>AttributeError\<close>, which the handler does not
  list: the exception escapes \<^verbatim>\<open>read_pid\<close>. (An object whose \<^verbatim>\<open>pid\<close> is no integer
  is returned as it is, \<open>read_pid_string_pid\<close>, and the \<^verbatim>\<open>UnicodeDecodeError\<close> of a file
  that is no text escapes as well, \<open>read_pid_undecodable\<close>.)
\<close>

theorem read_pid_array_raises:
  "fst (read_pid (sys0\<lparr>pid_file := Content (JArray [])\<rparr>)) = Inl AttributeError"
  by (simp add: read_pid_def read_file_def json_load_def py_get_def read_pid_caught_def sys0_def)

section \<open>Adoption detection\<close>

lemma detect_cleanup_props:
  "status_label (detect_cleanup v s) = Some Stopped"
  "mgr_pid (detect_cleanup v s) = mgr_pid s"
  "v \<noteq> JNull \<Longrightarrow> pid_file (detect_cleanup v s) = Missing"
  "v \<noteq> JNull \<Longrightarrow> OsRemove \<in> set (calls (detect_cleanup v s))"
  by (simp_all add: detect_cleanup_def Let_def effect_defs
       is_port_in_use_def find_port_owner_def split: prod.splits)

text \<open>At construction the stale record is removed: when the PID file names a PID \<open>p\<close>
  and \<^verbatim>\<open>is_pid_alive(p)\<close> is false, \<^verbatim>\<open>_detect_existing\<close> returns without an exception,
  the PID file is removed, the status shown is \<^verbatim>\<open>Stopped\<close>, and the tracked PID is
  what it was.\<close>

lemma detect_existing_dead_pid:
  assumes "fst (read_pid s) = Inr (JInt (int p))" and "\<not> fst (is_pid_alive p s)"
  shows "\<exists>s'. detect_existing s = Inr s' \<and> pid_file s' = Missing \<and> OsRemove \<in> set (calls s')
           \<and> status_label s' = Some Stopped \<and> mgr_pid s' = mgr_pid s"
  using assms
  by (simp add: detect_existing_def read_pid_def is_pid_alive_def truthy_def value_alive_def
        call_def detect_cleanup_props)

lemma detect_existing_stale_record:
  "\<exists>s'. detect_existing stale_record = Inr s' \<and> pid_file s' = Missing
        \<and> status_label s' = Some Stopped"
proof -
  have r: "fst (read_pid stale_record) = Inr (JInt (int 4242))"
    by (simp add: stale_record_def read_pid_def read_file_def json_load_def py_get_def
          pid_record_def)
  have d: "\<not> fst (is_pid_alive 4242 stale_record)"
    by (simp add: stale_record_def is_pid_alive_def sys0_def)
  show ?thesis
    using detect_existing_dead_pid [OF r d] by blast
qed

text \<open>Refresh removes the record of a dead PID when that PID is the tracked one, in its
  first block.\<close>

lemma refresh_tracked_dead:
  assumes "mgr_pid s = Some p" and "0 < p" and "\<not> fst (is_pid_alive p s)"
  shows "pid_file (refresh_tracked s) = Missing \<and> mgr_pid (refresh_tracked s) = None"
  using assms by (simp add: refresh_tracked_def is_pid_alive_def effect_defs)

lemma refresh_port_props:
  "status_label (refresh_port s) = Some Stopped"
  "pid_file (refresh_port s) = pid_file s"
  "mgr_pid (refresh_port s) = mgr_pid s"
  "set (calls (refresh_port s)) \<subseteq> set (calls s) \<union> {SocketConnect SERVER_PORT, NetConnections}"
  by (auto simp add: refresh_port_def is_port_in_use_def find_port_owner_def effect_defs Let_def
       split: prod.splits)




text \<open>Refresh does not adopt either while the port is closed: \<^verbatim>\<open>refresh_state\<close> stores
  the PID and reports \<^verbatim>\<open>Running\<close> only after \<^verbatim>\<open>is_port_in_use\<close> has answered true.\<close>

lemma refresh_state_port_closed:
  assumes "mgr_pid s = None" and "fst (read_pid s) = Inr (JInt (int p))"
    and "\<not> fst (is_port_in_use SERVER_PORT s)"
  shows "\<exists>s'. refresh_state s = Inr s' \<and> mgr_pid s' = None \<and> status_label s' = Some Stopped"
  using assms
  by (simp add: refresh_state_def refresh_tracked_def read_pid_def value_alive_def truthy_def
        is_pid_alive_def is_port_in_use_def refresh_port_props effect_defs Let_def)

section \<open>Passive health check\<close>

text \<open>
  C10. \<^verbatim>\<open>health_check\<close> returns \<^verbatim>\<open>starting\<close>, \<^verbatim>\<open>running\<close> or \<^verbatim>\<open>stopped\<close> in every
  state, never \<^verbatim>\<open>error\<close> or \<^verbatim>\<open>stopping\<close>; and the tick's use of it never leaves the
  label at \<^verbatim>\<open>Error\<close>, so the passive check does not enter that status.
\<close>

theorem health_check_range:
  "(fst (health_check s) = Starting \<or> fst (health_check s) = Running
      \<or> fst (health_check s) = Stopped)
   \<and> status_label (reconcile s) \<noteq> Some Error"
  by (simp add: reconcile_def health_check_def set_status_def Let_def
        split: prod.splits option.splits)

text \<open>
  C9, as stated, fails while \<^verbatim>\<open>_starting\<close> is set: right after \<^verbatim>\<open>start\<close> has spawned
  process 4242 and that process is gone, the PID is tracked and not alive, yet
  \<^verbatim>\<open>health_check\<close> returns \<^verbatim>\<open>starting\<close> and leaves the record and the tracked PID.
\<close>

theorem health_check_starting_counterexample:
  "mgr_pid (start sys0) = Some 4242 \<and> \<not> fst (is_pid_alive 4242 (start sys0))
   \<and> fst (health_check (start sys0)) = Starting
   \<and> fst (health_check (start sys0)) \<noteq> Stopped
   \<and> pid_file (snd (health_check (start sys0))) = pid_record 4242
   \<and> pid_file (snd (health_check (start sys0))) \<noteq> Missing
   \<and> mgr_pid (snd (health_check (start sys0))) = Some 4242"
  by (simp add: start_sys0 health_check_def is_pid_alive_def pid_record_def) (simp add: sys0_def)

text \<open>While \<^verbatim>\<open>_starting\<close> is set the check returns \<^verbatim>\<open>starting\<close> and changes nothing.\<close>

lemma health_check_while_starting:
  "mgr_starting s \<Longrightarrow> health_check s = (Starting, s)"
  by (simp add: health_check_def)

text \<open>
  C9, amended: when \<^verbatim>\<open>_starting\<close> is not set, a PID \<open>p\<close> is tracked and
  \<^verbatim>\<open>is_pid_alive(p)\<close> is false, \<^verbatim>\<open>health_check\<close> returns \<^verbatim>\<open>stopped\<close>; the only calls
  it makes are the process lookup and the removal of the PID file, none of them over
  the network; afterwards the record is gone and the tracked PID and the handle are
  absent; and a label that showed \<^verbatim>\<open>Running\<close> shows \<^verbatim>\<open>Stopped\<close> after the tick's
  reconciliation. (\<open>0 < p\<close>: Python reads the PID 0 as false, and no process the
  manager spawns or adopts has it.)
\<close>

theorem health_check_dead:
  assumes "\<not> mgr_starting s" and "mgr_pid s = Some p" and "0 < p" and "\<not> fst (is_pid_alive p s)"
  shows "fst (health_check s) = Stopped
         \<and> new_calls s (snd (health_check s)) = [PsutilProcess p, OsRemove]
         \<and> filter is_network_call (new_calls s (snd (health_check s))) = []
         \<and> pid_file (snd (health_check s)) = Missing
         \<and> mgr_pid (snd (health_check s)) = None
         \<and> mgr_process (snd (health_check s)) = None
         \<and> (status_label s = Some Running \<longrightarrow> status_label (reconcile s) = Some Stopped)"
  using assms
  by (simp add: health_check_def reconcile_def pid_and_alive_def is_pid_alive_def new_calls_def
        effect_defs)

text \<open>C9, amended, at a manager showing \<^verbatim>\<open>Running\<close> for process 4242 that is gone.\<close>

theorem health_check_dead_witness:
  "\<not> mgr_starting died_outside \<and> mgr_pid died_outside = Some 4242
   \<and> \<not> fst (is_pid_alive 4242 died_outside) \<and> status_label died_outside = Some Running
   \<and> fst (health_check died_outside) = Stopped
   \<and> new_calls died_outside (snd (health_check died_outside)) = [PsutilProcess 4242, OsRemove]
   \<and> pid_file (snd (health_check died_outside)) = Missing
   \<and> mgr_pid (snd (health_check died_outside)) = None
   \<and> status_label (reconcile died_outside) = Some Stopped"
proof -
  have h: "\<not> mgr_starting died_outside" "mgr_pid died_outside = Some 4242" "0 < (4242::nat)"
    "\<not> fst (is_pid_alive 4242 died_outside)"
    by (simp_all add: died_outside_def sys0_def is_pid_alive_def)
  have l: "status_label died_outside = Some Running"
    by (simp add: died_outside_def)
  show ?thesis
    using health_check_dead [OF h] h l by simp
qed

section \<open>Start\<close>

text \<open>
  C2, as stated, fails when the manager already tracks a live process: with the live
  Python process 7 tracked and the foreign process 99 listening on the port, \<^verbatim>\<open>start\<close>
  logs that the server is already running and returns; the status is not
  \<^verbatim>\<open>Error\<close> and no \<^verbatim>\<open>__PORT_BLOCKED__\<close> is queued.
\<close>

theorem start_already_running_counterexample:
  "fst (is_port_in_use SERVER_PORT running_elsewhere)
   \<and> fst (find_port_owner SERVER_PORT running_elsewhere) = Some 99
   \<and> mgr_pid running_elsewhere = Some 7 \<and> mgr_process running_elsewhere = None
   \<and> status_label (start running_elsewhere) = Some Running
   \<and> status_label (start running_elsewhere) \<noteq> Some Error
   \<and> ''__PORT_BLOCKED__'' \<notin> set (mgr_log_queue (start running_elsewhere))"
  by (simp add: running_elsewhere_def blocked_host_def is_port_in_use_def find_port_owner_def
       foreign_listener_def SERVER_PORT_def start_def is_running_def pid_and_alive_def
       is_pid_alive_def effect_defs)
     (simp add: sys0_def)

text \<open>
  C2, amended: for every call of \<^verbatim>\<open>start\<close> while the port is in use, no process is
  spawned and no PID is persisted (no \<^verbatim>\<open>Popen\<close>, no write of the PID file, the file,
  the handle and the tracked PID unchanged); when the manager is not running a process
  (\<^verbatim>\<open>is_running\<close> false), the status becomes \<^verbatim>\<open>Error\<close> and \<^verbatim>\<open>__PORT_BLOCKED__\<close> is
  queued; when it is, the call is a logged no-op: one line in the log area, status and
  queue as before.
\<close>

theorem start_port_occupied:
  assumes "fst (is_port_in_use SERVER_PORT s)"
  shows "Popen \<notin> set (new_calls s (start s))
         \<and> (\<forall>p. OpenWrite p \<notin> set (new_calls s (start s)))
         \<and> pid_file (start s) = pid_file s
         \<and> mgr_process (start s) = mgr_process s
         \<and> mgr_pid (start s) = mgr_pid s
         \<and> (\<not> fst (is_running s) \<longrightarrow>
               status_label (start s) = Some Error
               \<and> mgr_log_queue (start s) = mgr_log_queue s @ [''__PORT_BLOCKED__''])
         \<and> (fst (is_running s) \<longrightarrow>
               status_label (start s) = status_label s
               \<and> mgr_log_queue (start s) = mgr_log_queue s
               \<and> log_area (start s) = log_area s @ [Text ''Server is already running.''])"
proof -
  let ?s1 = "snd (is_running s)"
  obtain cs where cs: "calls ?s1 = calls s @ cs" "quiet cs"
    using is_running_quiet by blast
  have q: "Popen \<notin> set cs" "\<forall>p. OpenWrite p \<notin> set cs"
    using cs(2) by (simp_all add: quiet_def)
  have f: "same_manager s ?s1" "status_label ?s1 = status_label s"
    "log_area ?s1 = log_area s"
    by (rule is_running_same, rule is_running_label, rule is_running_log)
  have used: "port_listening ?s1 SERVER_PORT"
    using assms by (simp add: is_running_port is_port_in_use_def)
  show ?thesis
  proof (cases "fst (is_running s)")
    case True
    then have d: "start s = log (Text ''Server is already running.'') ?s1"
      by (simp add: start_def case_prod_beta)
    have c: "calls (start s) = calls s @ cs"
      using cs(1) by (simp add: d log_def)
    show ?thesis
      using True f q by (simp add: new_calls_append [OF c]) (simp add: d log_def same_manager_def)
  next
    case False
    then have d: "start s =
        set_status Error
          (put ''__PORT_BLOCKED__''
             (log (Fmt (cross @ '' Port {} is already in use (PID {}). Cannot start.'')
                     [JInt (int SERVER_PORT),
                      opt_json (first_listener (net_connections ?s1) SERVER_PORT)])
                (call NetConnections (call (SocketConnect SERVER_PORT) ?s1))))"
      using used by (simp add: start_def case_prod_beta is_port_in_use_def find_port_owner_def call_def)
    have c: "calls (start s) = calls s @ (cs @ [SocketConnect SERVER_PORT, NetConnections])"
      using cs(1) by (simp add: d effect_defs)
    show ?thesis
      using False f q
      by (simp add: new_calls_append [OF c]) (simp add: d effect_defs same_manager_def)
  qed
qed

text \<open>C2, amended, at a stopped manager with the foreign process 99 on the port.\<close>

theorem start_port_occupied_witness:
  "fst (is_port_in_use SERVER_PORT blocked_host)
   \<and> \<not> fst (is_running blocked_host)
   \<and> Popen \<notin> set (new_calls blocked_host (start blocked_host))
   \<and> pid_file (start blocked_host) = Missing
   \<and> mgr_process (start blocked_host) = None
   \<and> status_label (start blocked_host) = Some Error
   \<and> mgr_log_queue (start blocked_host) = [''__PORT_BLOCKED__'']"
proof -
  have u: "fst (is_port_in_use SERVER_PORT blocked_host)"
    by (simp add: is_port_in_use_def blocked_host_def SERVER_PORT_def)
  have r: "\<not> fst (is_running blocked_host)"
    by (simp add: is_running_def pid_and_alive_def blocked_host_def sys0_def)
  have f: "pid_file blocked_host = Missing" "mgr_process blocked_host = None"
    "mgr_log_queue blocked_host = []"
    by (simp_all add: blocked_host_def sys0_def)
  show ?thesis
    using start_port_occupied [OF u] u r f by simp
qed

section \<open>The readiness poller\<close>

text \<open>Every run in which the poller sees the child's exit before any successful probe
  queues the one line about the exit and nothing else: no \<^verbatim>\<open>__TIMEOUT__\<close>, and the
  status is not touched.\<close>

lemma wait_for_ready_early_exit:
  assumes "mgr_process s = Some h"
    and "\<forall>x \<in> set pre. \<not> fst x \<and> \<not> http_health_check (snd x)"
  shows "mgr_log_queue (wait_for_ready (pre @ (True, r) # rest) s)
           = mgr_log_queue s @ [cross @ '' Server process exited before becoming ready.'']
         \<and> \<not> mgr_starting (wait_for_ready (pre @ (True, r) # rest) s)
         \<and> status_label (wait_for_ready (pre @ (True, r) # rest) s) = status_label s"
  using assms
proof (induction pre arbitrary: s)
  case Nil
  then show ?case by (simp add: effect_defs)
next
  case (Cons a pre)
  obtain e q where a: "a = (e, q)" by (cases a)
  have m: "mgr_process (call (Sleep 500) (call HttpGet (call (Poll h) s))) = Some h"
    using Cons.prems(1) by (simp add: call_def)
  show ?case
    using Cons.prems Cons.IH [OF m] a
    by (simp add: effect_defs)
qed

lemma process_exit_line:
  "process_line (cross @ '' Server process exited before becoming ready.'') s
     = log (Text (cross @ '' Server process exited before becoming ready.'')) s"
  by (simp add: process_line_def cross_def)

lemma poller_exit:
  "wait_for_ready [(True, None)] (start sys0) =
     (start sys0)\<lparr>mgr_starting := False,
        mgr_log_queue := [cross @ '' Server process exited before becoming ready.''],
        calls := calls (start sys0) @ [Poll 4242],
        events := events (start sys0)
                    @ [Called (Poll 4242),
                       Queued (cross @ '' Server process exited before becoming ready.'')]\<rparr>"
  by (simp add: start_sys0 effect_defs) (simp add: sys0_def)

lemma tick_after_exit:
  "tick (wait_for_ready [(True, None)] (start sys0)) =
     (start sys0)\<lparr>mgr_starting := False, mgr_log_queue := [], mgr_pid := None, mgr_process := None,
        pid_file := Missing,
        log_area := log_area (start sys0)
                      @ [Text (cross @ '' Server process exited before becoming ready.'')],
        calls := calls (start sys0) @ [Poll 4242, PsutilProcess 4242, OsRemove],
        events := events (start sys0)
                    @ [Called (Poll 4242),
                       Queued (cross @ '' Server process exited before becoming ready.''),
                       Called (PsutilProcess 4242), Called OsRemove]\<rparr>"
  apply (subst poller_exit)
  apply (simp add: tick_def drain_logs_def process_exit_line)
  apply (simp add: reconcile_def health_check_def pid_and_alive_def is_pid_alive_def effect_defs
           start_sys0)
  apply (simp add: sys0_def)
  done

lemma tick_again:
  "tick ((start sys0)\<lparr>mgr_starting := False, mgr_log_queue := [], mgr_pid := None,
           mgr_process := None, pid_file := Missing, log_area := la, calls := cs,
           events := es\<rparr>) =
     (start sys0)\<lparr>mgr_starting := False, mgr_log_queue := [], mgr_pid := None,
           mgr_process := None, pid_file := Missing, log_area := la, calls := cs,
           events := es\<rparr>"
  apply (simp add: tick_def drain_logs_def)
  apply (simp add: reconcile_def health_check_def pid_and_alive_def start_sys0)
  done

text \<open>
  C1. The claim: when the poller sees that the spawned process has exited before any
  successful probe, \<^verbatim>\<open>__TIMEOUT__\<close> is emitted and the status becomes \<^verbatim>\<open>Error\<close>. The
  code at such a run: \<^verbatim>\<open>start\<close> spawns process 4242, the first \<^verbatim>\<open>poll()\<close> of the poller
  reports its exit. The queue then holds the line about the exit and no
  \<^verbatim>\<open>__TIMEOUT__\<close>; the label still shows \<^verbatim>\<open>Starting\<close>, and it does so after the next
  tick and the one after: the passive check returns \<^verbatim>\<open>stopped\<close>, which the tick does
  not write over a \<^verbatim>\<open>Starting...\<close> label.
\<close>

theorem early_exit_leaves_starting:
  "mgr_log_queue (wait_for_ready [(True, None)] (start sys0))
     = [cross @ '' Server process exited before becoming ready.'']
   \<and> ''__TIMEOUT__'' \<notin> set (mgr_log_queue (wait_for_ready [(True, None)] (start sys0)))
   \<and> status_label (wait_for_ready [(True, None)] (start sys0)) = Some Starting
   \<and> status_label (tick (wait_for_ready [(True, None)] (start sys0))) = Some Starting
   \<and> status_label (tick (tick (wait_for_ready [(True, None)] (start sys0)))) = Some Starting"
  apply (simp only: tick_after_exit tick_again)
  apply (subst poller_exit)+
  apply (simp add: start_sys0 cross_def)
  done

section \<open>Stop\<close>

lemma stop_running:
  "fst (is_running s) \<Longrightarrow>
     status_label (stop s) = Some Stopping \<and> last (calls (stop s)) = ThreadStart DoStop"
  by (simp add: stop_def case_prod_beta effect_defs)

lemma stop_owned_queue:
  "\<exists>msgs. mgr_log_queue (snd (stop_owned env pid h s)) = mgr_log_queue s @ msgs"
  by (simp add: stop_owned_def Let_def effect_defs split: option.splits exn.splits prod.splits)

lemma adopted_try_queue:
  "\<exists>msgs. mgr_log_queue (snd (adopted_try env p s)) = mgr_log_queue s @ msgs"
  by (simp add: adopted_try_def Let_def effect_defs split: option.splits)

lemma adopted_on_timeout_queue:
  "\<exists>msgs. mgr_log_queue (snd (adopted_on_timeout env p s)) = mgr_log_queue s @ msgs"
  by (simp add: adopted_on_timeout_def Let_def effect_defs split: option.splits)

lemma stop_adopted_queue:
  "\<exists>msgs. mgr_log_queue (snd (stop_adopted env p s)) = mgr_log_queue s @ msgs"
proof -
  let ?s0 = "put (''Terminating adopted process PID '' @ str_nat p @ ''...'') s"
  obtain raised s1 where t: "adopted_try env p ?s0 = (raised, s1)"
    by (cases "adopted_try env p ?s0")
  obtain m1 where m1: "mgr_log_queue s1 = mgr_log_queue ?s0 @ m1"
    using adopted_try_queue [of env p ?s0] t by auto
  obtain m2 where m2: "mgr_log_queue (snd (adopted_on_timeout env p s1)) = mgr_log_queue s1 @ m2"
    using adopted_on_timeout_queue by blast
  show ?thesis
    using t m1 m2
    by (simp add: stop_adopted_def put_def split: option.splits exn.splits)
qed

lemma stop_untracked_queue:
  "\<exists>msgs. mgr_log_queue (snd (stop_untracked env pid s)) = mgr_log_queue s @ msgs"
proof (cases "fst (pid_and_alive pid s)")
  case False
  then show ?thesis
    by (simp add: stop_untracked_def pid_and_alive_def is_pid_alive_def call_def
          split: prod.splits option.splits if_splits)
next
  case True
  then obtain p where p: "pid = Some p" "p \<noteq> 0" "alive_in (process_table s) p"
    by (auto simp add: pid_and_alive_def is_pid_alive_def split: option.splits if_splits)
  then have "stop_untracked env pid s = stop_adopted env p (call (PsutilProcess p) s)"
    by (simp add: stop_untracked_def pid_and_alive_def is_pid_alive_def)
  then show ?thesis
    using stop_adopted_queue [of env p "call (PsutilProcess p) s"] by (simp add: call_def)
qed

lemma do_stop_body_queue:
  "\<exists>msgs. mgr_log_queue (snd (do_stop_body env pid proc s)) = mgr_log_queue s @ msgs"
proof (cases proc)
  case None
  then show ?thesis using stop_untracked_queue [of env pid s] by (simp add: do_stop_body_def)
next
  case (Some h)
  show ?thesis
  proof (cases "child_exited s h")
    case True
    then show ?thesis
      using Some stop_untracked_queue [of env pid "call (Poll h) s"]
      by (simp add: do_stop_body_def call_def)
  next
    case False
    then show ?thesis
      using Some stop_owned_queue [of env pid h "call (Poll h) s"]
      by (simp add: do_stop_body_def call_def)
  qed
qed

text \<open>
  C5. Whatever the captured PID and handle are, whatever state the worker finds and
  whatever the host answers (every call returning, timing out or raising), the stop
  worker ends with the PID file removed (its last call is \<^verbatim>\<open>os.remove\<close>), the tracked
  PID and the handle absent, and \<^verbatim>\<open>__STOPPED__\<close> as the last line it adds to the queue.
\<close>

theorem do_stop_always_stopped:
  "pid_file (do_stop env pid proc s) = Missing
   \<and> last (calls (do_stop env pid proc s)) = OsRemove
   \<and> mgr_pid (do_stop env pid proc s) = None
   \<and> mgr_process (do_stop env pid proc s) = None
   \<and> (\<exists>msgs. mgr_log_queue (do_stop env pid proc s) = mgr_log_queue s @ msgs @ [''__STOPPED__''])"
proof -
  obtain raised s1 where b: "do_stop_body env pid proc s = (raised, s1)"
    by (cases "do_stop_body env pid proc s")
  obtain msgs where q: "mgr_log_queue s1 = mgr_log_queue s @ msgs"
    using do_stop_body_queue [of env pid proc s] b by auto
  show ?thesis
  proof (cases raised)
    case None
    then show ?thesis using b q by (simp add: do_stop_def effect_defs)
  next
    case (Some e)
    then show ?thesis using b q by (simp add: do_stop_def effect_defs)
  qed
qed

section \<open>Restart\<close>

lemma stop_same: "same_manager s (stop s)"
  using is_running_same [of s]
  by (simp add: stop_def case_prod_beta effect_defs same_manager_def)

lemma stop_calls:
  "calls (stop s)
     = calls s @ probes s @ (if fst (is_running s) then [ThreadStart DoStop] else [])"
  by (simp add: stop_def case_prod_beta effect_defs is_running_snd)

lemma stop_events:
  "events (stop s)
     = events s @ map Called (probes s)
         @ (if fst (is_running s) then [Called (ThreadStart DoStop)] else [])"
  by (simp add: stop_def case_prod_beta effect_defs is_running_snd)

text \<open>The loop sleeps once for every look that finds the server running, up to the
  first look that does not, and does nothing else.\<close>

lemma poll_stopped_exact:
  "poll_stopped n i running s
     = s\<lparr>calls := calls s @ replicate (length (takeWhile running [i..<i + n])) (Sleep 500),
         events := events s
                     @ replicate (length (takeWhile running [i..<i + n])) (Called (Sleep 500))\<rparr>"
proof (induction n arbitrary: i s)
  case 0
  then show ?case by simp
next
  case (Suc n)
  have u: "[i..<Suc (i + n)] = i # [Suc i..<Suc (i + n)]"
    by (simp add: upt_conv_Cons del: upt_Suc)
  show ?case
  proof (cases "running i")
    case False
    then show ?thesis by (simp add: u del: upt_Suc)
  next
    case True
    then show ?thesis
      using Suc.IH [of "Suc i" "call (Sleep 500) s"]
      by (simp add: u call_def replicate_app_Cons_same del: upt_Suc)
  qed
qed

lemma waits_le: "waits running \<le> 20"
proof -
  have "length (takeWhile running [0..<20]) \<le> length [0..<20]"
    by (rule length_takeWhile_le)
  then show ?thesis by (simp add: waits_def)
qed

lemma tick_do_start:
  "tick (s\<lparr>mgr_log_queue := [''__DO_START__'']\<rparr>) = reconcile (start (s\<lparr>mgr_log_queue := []\<rparr>))"
  by (simp add: tick_def drain_logs_def process_line_def)

text \<open>
  C8. For every run of the restart worker, whatever \<^verbatim>\<open>is_running\<close> answers while it
  waits. What it does, in this order: it asks \<^verbatim>\<open>is_running\<close>; when the server is
  running it calls \<^verbatim>\<open>stop\<close> (which asks \<^verbatim>\<open>is_running\<close> again and starts the stop worker)
  and then sleeps half a second for each look of its loop that finds the server still
  running, up to the first look that does not and at most 20 times; it sleeps half a
  second more; and last of all it puts \<^verbatim>\<open>__DO_START__\<close> on the queue. Nothing else
  happens. So the only line it queues is \<^verbatim>\<open>__DO_START__\<close>, after the stop and the wait;
  it makes no \<^verbatim>\<open>Popen\<close> call, starts no readiness poller and writes no PID file; the
  PID file, the handle, the tracked PID and \<^verbatim>\<open>_starting\<close> are as before, so no part of
  \<^verbatim>\<open>start\<close> has run; its sleeps add up to at most 10.5 seconds; and a tick that finds
  \<^verbatim>\<open>__DO_START__\<close> in the queue calls \<^verbatim>\<open>start\<close> on the control loop.
\<close>

theorem do_restart_defers_start:
  "new_events s (do_restart running s)
     = map Called (probes s)
       @ (if fst (is_running s)
          then map Called (probes s) @ [Called (ThreadStart DoStop)]
               @ replicate (waits running) (Called (Sleep 500))
          else [])
       @ [Called (Sleep 500), Queued ''__DO_START__'']
   \<and> quiet (probes s) \<and> waits running \<le> 20
   \<and> mgr_log_queue (do_restart running s) = mgr_log_queue s @ [''__DO_START__'']
   \<and> Popen \<notin> set (new_calls s (do_restart running s))
   \<and> ThreadStart WaitForReady \<notin> set (new_calls s (do_restart running s))
   \<and> (\<forall>p. OpenWrite p \<notin> set (new_calls s (do_restart running s)))
   \<and> pid_file (do_restart running s) = pid_file s
   \<and> mgr_process (do_restart running s) = mgr_process s
   \<and> mgr_pid (do_restart running s) = mgr_pid s
   \<and> mgr_starting (do_restart running s) = mgr_starting s
   \<and> total_sleep (new_calls s (do_restart running s)) \<le> 10500
   \<and> (fst (is_running s) \<longrightarrow> ThreadStart DoStop \<in> set (new_calls s (do_restart running s)))
   \<and> tick (s\<lparr>mgr_log_queue := [''__DO_START__'']\<rparr>) = reconcile (start (s\<lparr>mgr_log_queue := []\<rparr>))"
proof -
  let ?s1 = "snd (is_running s)"
  let ?c1 = "probes s"
  have c1: "calls ?s1 = calls s @ ?c1" "events ?s1 = events s @ map Called ?c1"
    by (simp_all add: is_running_snd)
  have qc: "quiet ?c1" by (rule probes_quiet)
  have q: "Popen \<notin> set ?c1" "ThreadStart WaitForReady \<notin> set ?c1" "\<forall>p. OpenWrite p \<notin> set ?c1"
    "total_sleep ?c1 = 0"
    using qc by (simp_all add: quiet_def)
  have m1: "same_manager s ?s1" by (rule is_running_same)
  show ?thesis
  proof (cases "fst (is_running s)")
    case False
    then have d: "do_restart running s = put ''__DO_START__'' (call (Sleep 500) ?s1)"
      by (simp add: do_restart_def case_prod_beta)
    have c: "calls (do_restart running s) = calls s @ (?c1 @ [Sleep 500])"
      using c1 by (simp add: d effect_defs)
    have e: "events (do_restart running s)
               = events s @ (map Called ?c1 @ [Called (Sleep 500), Queued ''__DO_START__''])"
      using c1 by (simp add: d effect_defs)
    have sl: "total_sleep (new_calls s (do_restart running s)) \<le> 10500"
      using q(4)
      by (simp add: new_calls_append [OF c] total_sleep_append total_sleep_one)
    show ?thesis
      using False m1 q(1,2,3) qc waits_le [of running] sl
      by (simp add: new_calls_append [OF c] new_events_append [OF e] tick_do_start)
         (simp add: d effect_defs same_manager_def)
  next
    case True
    let ?k = "waits running"
    have r1: "fst (is_running ?s1)" "probes ?s1 = ?c1"
      using True by (simp_all add: is_running_again probes_again)
    have c2: "calls (stop ?s1) = calls s @ ?c1 @ ?c1 @ [ThreadStart DoStop]"
      using r1 c1 by (simp add: stop_calls)
    have e2: "events (stop ?s1)
                = events s @ map Called ?c1 @ map Called ?c1 @ [Called (ThreadStart DoStop)]"
      using r1 c1 by (simp add: stop_events)
    have m2: "same_manager ?s1 (stop ?s1)" by (rule stop_same)
    have w: "poll_stopped 20 0 running (stop ?s1)
               = (stop ?s1)\<lparr>calls := calls (stop ?s1) @ replicate ?k (Sleep 500),
                    events := events (stop ?s1) @ replicate ?k (Called (Sleep 500))\<rparr>"
      using poll_stopped_exact [of 20 0 running "stop ?s1"] by (simp add: waits_def)
    have d: "do_restart running s =
               put ''__DO_START__'' (call (Sleep 500)
                 ((stop ?s1)\<lparr>calls := calls (stop ?s1) @ replicate ?k (Sleep 500),
                    events := events (stop ?s1) @ replicate ?k (Called (Sleep 500))\<rparr>))"
      using True w by (simp add: do_restart_def case_prod_beta)
    have c: "calls (do_restart running s)
               = calls s @ (?c1 @ ?c1 @ [ThreadStart DoStop] @ replicate ?k (Sleep 500)
                              @ [Sleep 500])"
      using c2 by (simp add: d effect_defs)
    have e: "events (do_restart running s)
               = events s @ (map Called ?c1 @ (map Called ?c1 @ [Called (ThreadStart DoStop)]
                               @ replicate ?k (Called (Sleep 500)))
                             @ [Called (Sleep 500), Queued ''__DO_START__''])"
      using e2 by (simp add: d effect_defs)
    have sl: "total_sleep (new_calls s (do_restart running s)) \<le> 10500"
      using q(4) waits_le [of running]
      by (simp add: new_calls_append [OF c] total_sleep_append total_sleep_replicate
            total_sleep_one total_sleep_Cons)
    show ?thesis
      using True m1 m2 q(1,2,3) qc waits_le [of running] sl
      by (simp add: new_calls_append [OF c] new_events_append [OF e] tick_do_start)
         (simp add: d effect_defs same_manager_def)
  qed
qed

text \<open>C8 at a manager that tracks the live Python process 7, whose \<^verbatim>\<open>is_running\<close> turns
  false at the fourth look of the wait loop: the stop, three sleeps of the loop, the
  last sleep, the sentinel.\<close>

theorem do_restart_defers_start_witness:
  "fst (is_running (sys0\<lparr>mgr_pid := Some 7, process_table := python_table 7\<rparr>))
   \<and> new_events (sys0\<lparr>mgr_pid := Some 7, process_table := python_table 7\<rparr>)
        (do_restart (\<lambda>i. i < 3) (sys0\<lparr>mgr_pid := Some 7, process_table := python_table 7\<rparr>))
       = [Called (PsutilProcess 7), Called (PsutilProcess 7), Called (ThreadStart DoStop),
          Called (Sleep 500), Called (Sleep 500), Called (Sleep 500), Called (Sleep 500),
          Queued ''__DO_START__'']
   \<and> ThreadStart DoStop
        \<in> set (new_calls (sys0\<lparr>mgr_pid := Some 7, process_table := python_table 7\<rparr>)
                 (do_restart (\<lambda>i. i < 3) (sys0\<lparr>mgr_pid := Some 7, process_table := python_table 7\<rparr>)))
   \<and> Popen
        \<notin> set (new_calls (sys0\<lparr>mgr_pid := Some 7, process_table := python_table 7\<rparr>)
                 (do_restart (\<lambda>i. i < 3) (sys0\<lparr>mgr_pid := Some 7, process_table := python_table 7\<rparr>)))
   \<and> mgr_log_queue (do_restart (\<lambda>i. i < 3) (sys0\<lparr>mgr_pid := Some 7, process_table := python_table 7\<rparr>))
        = [''__DO_START__'']"
proof -
  let ?w = "sys0\<lparr>mgr_pid := Some 7, process_table := python_table 7\<rparr>"
  have r: "fst (is_running ?w)"
    by (simp add: is_running_def pid_and_alive_def is_pid_alive_def)
  have p: "probes ?w = [PsutilProcess 7]"
    by (simp add: probes_def new_calls_def is_running_def pid_and_alive_def is_pid_alive_def
          call_def)
  have k: "waits (\<lambda>i. i < 3) = 3"
    unfolding waits_def by code_simp
  have q: "mgr_log_queue ?w = []"
    by (simp add: sys0_def)
  show ?thesis
    using do_restart_defers_start [of ?w "\<lambda>i. i < 3"] r p k q
    by (simp add: numeral_3_eq_3)
qed

section \<open>Killing a process tree\<close>






end
